theory Spec2Isabelle
  imports Complex_Main
begin

section \<open>Values of the ledger\<close>

text \<open>
  The server keeps one JSON document (\<^verbatim>\<open>db.json\<close>) and every handler runs
  \<^verbatim>\<open>await db.read()\<close>, checks, mutates the freshly parsed objects and ends with
  \<^verbatim>\<open>await db.write()\<close>.  A handler is modelled as a function from the document that
  was read to either the error response (nothing is written) or the document
  that is written together with the JSON answer.

  JavaScript numbers are modelled as exact rationals: \<^verbatim>\<open>NaN\<close>, the infinities and
  the rounding of doubles are outside the model.  A field or request parameter
  that may be absent is an \<open>option\<close> (\<open>None\<close> is \<^verbatim>\<open>undefined\<close>).  Identifiers
  from \<^verbatim>\<open>uuidv4()\<close>, time stamps from \<^verbatim>\<open>new Date().toISOString()\<close> and the sample
  of \<^verbatim>\<open>Math.random()\<close> are arguments of the handlers.
\<close>

type_synonym number = rat

datatype error =
    HttpError nat string  \<comment> \<open>\<^verbatim>\<open>res.status(n).json({error: msg})\<close>\<close>
  | TypeError             \<comment> \<open>a property read on \<^verbatim>\<open>undefined\<close>; the handler throws\<close>

abbreviation InsufficientFunds :: error where
  "InsufficientFunds \<equiv> HttpError 400 ''Insufficient credits''"

abbreviation InvalidAmount :: error where
  "InvalidAmount \<equiv> HttpError 400 ''Invalid amount''"

datatype status = Pending | Approved | Rejected
  \<comment> \<open>the strings \<^verbatim>\<open>'pending'\<close>, \<^verbatim>\<open>'approved'\<close>, \<^verbatim>\<open>'rejected'\<close>\<close>

record user =
  id_u :: string
  credits :: number

record withdraw =
  id_w :: string
  userId_w :: string
  amount :: number
  upi :: string
  utr :: string
  status :: status
  createdAt_w :: string
  processedAt :: "string option"

record photo =
  id_p :: string
  challengeId :: string
  votes :: number

record gameConfig =
  cost :: "number option"
  feePercent :: "number option"
  payoutMultipliers :: "number list option"
  odds :: "number list option"
  enabled :: bool

text \<open>The body of \<^verbatim>\<open>PUT /api/admin/games/:gameId\<close>: a field is \<open>None\<close> when the
  payload leaves it \<^verbatim>\<open>undefined\<close>.\<close>

record gameConfigPatch =
  patch_cost :: "number option"
  patch_feePercent :: "number option"
  patch_payoutMultipliers :: "number list option"
  patch_odds :: "number list option"
  patch_enabled :: "bool option"

text \<open>A play record; the pass-through handler writes no \<^verbatim>\<open>fee\<close>, \<^verbatim>\<open>effectiveStake\<close>
  and \<^verbatim>\<open>multiplier\<close>.\<close>

record gamePlay =
  play_id :: string
  play_userId :: string
  play_gameId :: string
  play_cost :: number
  play_fee :: "number option"
  play_effectiveStake :: "number option"
  play_multiplier :: "number option"
  play_award :: number
  play_createdAt :: string

record systemFee =
  fee_id :: string
  fee_gameId :: string
  fee_amount :: number
  collectedAt :: string

text \<open>\<^verbatim>\<open>db.data\<close>.  The lists \<^verbatim>\<open>games\<close> and \<^verbatim>\<open>challenges\<close> are left out: no handler
  modelled here reads them.  \<^verbatim>\<open>gameConfigs\<close>, \<^verbatim>\<open>gamePlays\<close> and \<^verbatim>\<open>systemFees\<close> are
  not created by \<^verbatim>\<open>initDB\<close> and may be missing.\<close>

record db =
  users :: "user list"
  withdraws :: "withdraw list"
  photos :: "photo list"
  gameConfigs :: "(string \<rightharpoonup> gameConfig) option"
  gamePlays :: "gamePlay list option"
  systemFees :: "systemFee list option"

section \<open>JavaScript idioms\<close>

text \<open>\<^verbatim>\<open>Number(x) || d\<close> on a number or \<^verbatim>\<open>undefined\<close>: \<^verbatim>\<open>Number(undefined)\<close> is \<^verbatim>\<open>NaN\<close>,
  and \<^verbatim>\<open>NaN\<close> and \<^verbatim>\<open>0\<close> are falsy.  \<^verbatim>\<open>Number(x || 0)\<close> has the same value as
  \<^verbatim>\<open>Number(x) || 0\<close> on these inputs.\<close>

definition Number_or :: "number option \<Rightarrow> number \<Rightarrow> number" where
  "Number_or x d = (case x of None \<Rightarrow> d | Some n \<Rightarrow> if n = 0 then d else n)"

text \<open>\<^verbatim>\<open>xs[i]\<close>: \<^verbatim>\<open>undefined\<close> beyond the end of the array.\<close>

definition index :: "'a list \<Rightarrow> nat \<Rightarrow> 'a option" where
  "index xs i = (if i < length xs then Some (xs ! i) else None)"

text \<open>\<^verbatim>\<open>xs || []\<close> and \<^verbatim>\<open>s || ''\<close>.\<close>

definition or_empty :: "'a list option \<Rightarrow> 'a list" where
  "or_empty x = (case x of None \<Rightarrow> [] | Some xs \<Rightarrow> xs)"

text \<open>\<^verbatim>\<open>Array.prototype.find\<close> returns the first matching object of the array
  itself, so an assignment to one of its fields changes that element of the
  array.\<close>

fun mutate_first :: "('a \<Rightarrow> bool) \<Rightarrow> ('a \<Rightarrow> 'a) \<Rightarrow> 'a list \<Rightarrow> 'a list" where
  "mutate_first P f [] = []"
| "mutate_first P f (x # xs) = (if P x then f x # xs else x # mutate_first P f xs)"

text \<open>What the next request reads: the written document after an answer, the
  old one after an error.\<close>

definition commit :: "db \<Rightarrow> error + (db \<times> 'a) \<Rightarrow> db" where
  "commit d r = (case r of Inl e \<Rightarrow> d | Inr (d', a) \<Rightarrow> d')"

section \<open>Withdrawals\<close>

text \<open>\<^verbatim>\<open>POST /api/wallet/withdraw\<close> (server.js 130-141).\<close>

definition wallet_withdraw ::
  "string \<Rightarrow> string \<Rightarrow> string \<Rightarrow> number \<Rightarrow> string option \<Rightarrow> string option \<Rightarrow> db
    \<Rightarrow> error + (db \<times> withdraw)" where
  "wallet_withdraw uuid now reqUser amt upi' utr' d =
    (if amt \<le> 0 then Inl InvalidAmount
     else case find (\<lambda>u. id_u u = reqUser) (users d) of
       None \<Rightarrow> Inl TypeError
     | Some user \<Rightarrow>
         if credits user < amt then Inl InsufficientFunds
         else
           let w = \<lparr>id_w = uuid, userId_w = id_u user, amount = amt,
                    upi = or_empty upi', utr = or_empty utr', status = Pending,
                    createdAt_w = now, processedAt = None\<rparr>
           in Inr (d\<lparr>withdraws := withdraws d @ [w]\<rparr>, w))"

text \<open>\<^verbatim>\<open>POST /api/admin/withdraws/:id/:action\<close> (server.js 150-166).\<close>

definition admin_withdraw ::
  "string \<Rightarrow> string \<Rightarrow> string \<Rightarrow> db \<Rightarrow> error + (db \<times> withdraw)" where
  "admin_withdraw now rid action d =
    (case find (\<lambda>x. id_w x = rid) (withdraws d) of
       None \<Rightarrow> Inl (HttpError 404 ''Not found'')
     | Some w \<Rightarrow>
         if action \<notin> set [''approve'', ''reject''] then Inl (HttpError 400 ''Bad action'')
         else
           let w' = w\<lparr>status := (if action = ''approve'' then Approved else Rejected),
                      processedAt := Some now\<rparr>;
               d1 = d\<lparr>withdraws := mutate_first (\<lambda>x. id_w x = rid) (\<lambda>x. w') (withdraws d)\<rparr>;
               d2 = (if status w' = Approved
                     then (case find (\<lambda>u. id_u u = userId_w w') (users d1) of
                             None \<Rightarrow> d1
                           | Some user \<Rightarrow>
                               d1\<lparr>users := mutate_first (\<lambda>u. id_u u = userId_w w')
                                    (\<lambda>u. u\<lparr>credits := credits u - amount w'\<rparr>) (users d1)\<rparr>)
                     else d1)
           in Inr (d2, w'))"

section \<open>Voting\<close>

text \<open>\<^verbatim>\<open>POST /api/challenges/:id/photos/:photoId/vote\<close> (server.js 218-235).\<close>

definition costPerVote :: number where
  "costPerVote = 10"

definition vote ::
  "string \<Rightarrow> string \<Rightarrow> string \<Rightarrow> number option \<Rightarrow> db \<Rightarrow> error + (db \<times> photo \<times> number)" where
  "vote cid photoId reqUser amt d =
    (let n = max 1 (Number_or amt 1) in
     case find (\<lambda>p. id_p p = photoId \<and> challengeId p = cid) (photos d) of
       None \<Rightarrow> Inl (HttpError 404 ''Photo not found'')
     | Some ph \<Rightarrow>
        (case find (\<lambda>u. id_u u = reqUser) (users d) of
           None \<Rightarrow> Inl TypeError
         | Some user \<Rightarrow>
             let totalCost = n * costPerVote in
             if credits user < totalCost then Inl InsufficientFunds
             else
               let user' = user\<lparr>credits := credits user - totalCost\<rparr>;
                   ph' = ph\<lparr>votes := Number_or (Some (votes ph)) 0 + n\<rparr>;
                   photos1 = mutate_first (\<lambda>p. id_p p = photoId \<and> challengeId p = cid)
                               (\<lambda>p. ph') (photos d);
                   users1 = mutate_first (\<lambda>u. id_u u = reqUser) (\<lambda>u. user') (users d)
               in Inr (d\<lparr>photos := map (\<lambda>p. if id_p p = id_p ph' then ph' else p) photos1,
                         users := map (\<lambda>u. if id_u u = id_u user' then user' else u) users1\<rparr>,
                       ph', credits user')))"

text \<open>The specification's wording of the number of votes: the supplied count, and 1
  when none is supplied or the supplied one is not positive.\<close>

definition vote_count :: "number option \<Rightarrow> number" where
  "vote_count amt = (case amt of None \<Rightarrow> 1 | Some n \<Rightarrow> if n \<le> 0 then 1 else n)"

text \<open>The number of votes with the bound moved from 0 to 1: the supplied count, and
  1 when none is supplied or the supplied one is below 1.\<close>

definition votes_cast :: "number option \<Rightarrow> number" where
  "votes_cast amt = (case amt of None \<Rightarrow> 1 | Some n \<Rightarrow> if n < 1 then 1 else n)"

section \<open>Playing\<close>

text \<open>The walk over the odds (server.js 320-328): \<open>i\<close> and \<open>cumulative\<close> are the loop
  variables; the result is \<^verbatim>\<open>chosenMultiplier\<close>, which stays \<open>0\<close> when the loop ends
  without a \<^verbatim>\<open>break\<close>.\<close>

function odds_walk :: "number \<Rightarrow> number list \<Rightarrow> number list \<Rightarrow> nat \<Rightarrow> number \<Rightarrow> number" where
  "odds_walk rnd os ms i cumulative =
    (if i < length os
     then (let cumulative' = cumulative + Number_or (index os i) 0 in
           if rnd \<le> cumulative' then Number_or (index ms i) 0
           else odds_walk rnd os ms (Suc i) cumulative')
     else 0)"
  by pat_completeness auto
termination
  by (relation "measure (\<lambda>(rnd, os, ms, i, cumulative). length os - i)") auto

declare odds_walk.simps [simp del]

text \<open>The specification's wording of the same choice: the first index \<open>i\<close> at which
  the sum of \<open>odds[0..i]\<close> reaches or exceeds the sample \<open>r\<close>, if there is one.\<close>

definition first_reaching :: "number \<Rightarrow> number list \<Rightarrow> nat option" where
  "first_reaching r os = find (\<lambda>i. r \<le> sum_list (take (Suc i) os)) [0..<length os]"

text \<open>The second handler of \<^verbatim>\<open>POST /api/play\<close> (server.js 298-343).\<close>

definition play_secure ::
  "string \<Rightarrow> string \<Rightarrow> string \<Rightarrow> string \<Rightarrow> number \<Rightarrow> string \<Rightarrow> string option \<Rightarrow> db
    \<Rightarrow> error + (db \<times> number \<times> gamePlay)" where
  "play_secure feeId feeAt playId playAt rnd reqUser gameId d =
    (case gameId of
       None \<Rightarrow> Inl (HttpError 400 ''Missing gameId'')
     | Some g \<Rightarrow>
       if g = [] then Inl (HttpError 400 ''Missing gameId'')
       else
        (case (case gameConfigs d of None \<Rightarrow> None | Some cfgs \<Rightarrow> cfgs g) of
           None \<Rightarrow> Inl (HttpError 404 ''Game config not found'')
         | Some cfg \<Rightarrow>
            if \<not> enabled cfg then Inl (HttpError 400 ''Game is disabled'')
            else
             (case find (\<lambda>u. id_u u = reqUser) (users d) of
                None \<Rightarrow> Inl (HttpError 404 ''User not found'')
              | Some user \<Rightarrow>
                 let cost' = Number_or (cost cfg) 0 in
                 if credits user < cost' then Inl InsufficientFunds
                 else
                   let feePercent' = Number_or (feePercent cfg) 0;
                       fee = of_int \<lfloor>(cost' * feePercent') / 100\<rfloor>;
                       effectiveStake = cost' - fee;
                       user1 = user\<lparr>credits := credits user - cost'\<rparr>;
                       chosenMultiplier =
                         odds_walk rnd (or_empty (odds cfg)) (or_empty (payoutMultipliers cfg)) 0 0;
                       award = of_int \<lfloor>effectiveStake * chosenMultiplier\<rfloor>;
                       user2 = (if award > 0 then user1\<lparr>credits := credits user1 + award\<rparr>
                                else user1);
                       fees = or_empty (systemFees d) @
                         [\<lparr>fee_id = feeId, fee_gameId = g, fee_amount = fee, collectedAt = feeAt\<rparr>];
                       play = \<lparr>play_id = playId, play_userId = id_u user2, play_gameId = g,
                               play_cost = cost', play_fee = Some fee,
                               play_effectiveStake = Some effectiveStake,
                               play_multiplier = Some chosenMultiplier, play_award = award,
                               play_createdAt = playAt\<rparr>;
                       users1 = mutate_first (\<lambda>u. id_u u = reqUser) (\<lambda>u. user2) (users d)
                   in Inr (d\<lparr>systemFees := Some fees,
                             gamePlays := Some (or_empty (gamePlays d) @ [play]),
                             users := map (\<lambda>u. if id_u u = id_u user2 then user2 else u) users1\<rparr>,
                           credits user2, play))))"

text \<open>The first handler of \<^verbatim>\<open>POST /api/play\<close> (server.js 271-292).  \<open>cost'\<close> is \<open>None\<close>
  when \<^verbatim>\<open>typeof cost !== 'number'\<close>.\<close>

definition play_passthrough ::
  "string \<Rightarrow> string \<Rightarrow> string \<Rightarrow> string option \<Rightarrow> number option \<Rightarrow> number option \<Rightarrow> db
    \<Rightarrow> error + (db \<times> number \<times> gamePlay)" where
  "play_passthrough playId playAt reqUser gameId cost' result d =
    (case (gameId, cost') of
       (Some g, Some c) \<Rightarrow>
         if g = [] then Inl (HttpError 400 ''Missing params'')
         else
          (case find (\<lambda>u. id_u u = reqUser) (users d) of
             None \<Rightarrow> Inl (HttpError 404 ''User not found'')
           | Some user \<Rightarrow>
               if credits user < c then Inl InsufficientFunds
               else
                 let user1 = user\<lparr>credits := credits user - c\<rparr>;
                     award = Number_or result 0;
                     user2 = (if award > 0 then user1\<lparr>credits := credits user1 + award\<rparr>
                              else user1);
                     play = \<lparr>play_id = playId, play_userId = id_u user2, play_gameId = g,
                             play_cost = c, play_fee = None, play_effectiveStake = None,
                             play_multiplier = None, play_award = award,
                             play_createdAt = playAt\<rparr>;
                     users1 = mutate_first (\<lambda>u. id_u u = reqUser) (\<lambda>u. user2) (users d)
                 in Inr (d\<lparr>gamePlays := Some (or_empty (gamePlays d) @ [play]),
                           users := map (\<lambda>u. if id_u u = id_u user2 then user2 else u) users1\<rparr>,
                         credits user2, play))
     | _ \<Rightarrow> Inl (HttpError 400 ''Missing params''))"

section \<open>Game configuration\<close>

text \<open>\<^verbatim>\<open>PUT /api/admin/games/:gameId\<close> (server.js 352-368).\<close>

definition admin_games_put ::
  "string \<Rightarrow> gameConfigPatch \<Rightarrow> db \<Rightarrow> error + (db \<times> gameConfig)" where
  "admin_games_put gameId payload d =
    (let cfgs = (case gameConfigs d of None \<Rightarrow> Map.empty | Some m \<Rightarrow> m) in
     case cfgs gameId of
       None \<Rightarrow> Inl (HttpError 404 ''Game not found'')
     | Some cur \<Rightarrow>
         let cur1 = (case patch_cost payload of None \<Rightarrow> cur | Some c \<Rightarrow> cur\<lparr>cost := Some c\<rparr>);
             cur2 = (case patch_feePercent payload of None \<Rightarrow> cur1
                     | Some f \<Rightarrow> cur1\<lparr>feePercent := Some f\<rparr>);
             cur3 = (case patch_payoutMultipliers payload of None \<Rightarrow> cur2
                     | Some ms \<Rightarrow> cur2\<lparr>payoutMultipliers := Some ms\<rparr>);
             cur4 = (case patch_odds payload of None \<Rightarrow> cur3
                     | Some os \<Rightarrow> cur3\<lparr>odds := Some os\<rparr>);
             cur5 = (case patch_enabled payload of None \<Rightarrow> cur4
                     | Some b \<Rightarrow> cur4\<lparr>enabled := b\<rparr>)
         in Inr (d\<lparr>gameConfigs := Some (cfgs(gameId \<mapsto> cur5))\<rparr>, cur5))"

section \<open>Example documents\<close>

definition empty_db :: db where
  "empty_db = \<lparr>users = [], withdraws = [], photos = [], gameConfigs = None,
     gamePlays = None, systemFees = None\<rparr>"

text \<open>A pending request whose user is not among the accounts.\<close>

definition ex_orphan :: db where
  "ex_orphan = empty_db\<lparr>
     users := [\<lparr>id_u = ''admin'', credits = 0\<rparr>],
     withdraws := [\<lparr>id_w = ''w1'', userId_w = ''gone'', amount = 50, upi = ''a@upi'', utr = [],
        status = Pending, createdAt_w = ''t0'', processedAt = None\<rparr>]\<rparr>"

text \<open>The administrator and one player with 500 credits.\<close>

definition ex_wallet :: db where
  "ex_wallet = empty_db\<lparr>
     users := [\<lparr>id_u = ''admin'', credits = 0\<rparr>, \<lparr>id_u = ''u1'', credits = 500\<rparr>]\<rparr>"

text \<open>A player short of the 10 credits of one vote, one who can pay two, and a
  photo of the seeded challenge.\<close>

definition ex_photo :: db where
  "ex_photo = empty_db\<lparr>
     users := [\<lparr>id_u = ''admin'', credits = 0\<rparr>, \<lparr>id_u = ''u1'', credits = 5\<rparr>,
               \<lparr>id_u = ''u2'', credits = 25\<rparr>],
     photos := [\<lparr>id_p = ''ph1'', challengeId = ''challenge-1'', votes = 0\<rparr>]\<rparr>"

text \<open>A game that costs 100, withholds 10 percent and always pays double.\<close>

definition cfg_double :: gameConfig where
  "cfg_double = \<lparr>cost = Some 100, feePercent = Some 10, payoutMultipliers = Some [2],
     odds = Some [1], enabled = True\<rparr>"

definition ex_game :: db where
  "ex_game = empty_db\<lparr>
     users := [\<lparr>id_u = ''admin'', credits = 0\<rparr>, \<lparr>id_u = ''u1'', credits = 1000\<rparr>],
     gameConfigs := Some [''g1'' \<mapsto> cfg_double]\<rparr>"

text \<open>The same game with the multiplier \<open>-1\<close>.\<close>

definition ex_game_neg :: db where
  "ex_game_neg = empty_db\<lparr>
     users := [\<lparr>id_u = ''admin'', credits = 0\<rparr>, \<lparr>id_u = ''u1'', credits = 1000\<rparr>],
     gameConfigs := Some [''g1'' \<mapsto> cfg_double\<lparr>payoutMultipliers := Some [-1]\<rparr>]\<rparr>"

text \<open>The empty payload.\<close>

definition patch_none :: gameConfigPatch where
  "patch_none = \<lparr>patch_cost = None, patch_feePercent = None, patch_payoutMultipliers = None,
     patch_odds = None, patch_enabled = None\<rparr>"

text \<open>A pending request of 50 by a player whose balance has dropped to 30.\<close>

definition ex_short :: db where
  "ex_short = empty_db\<lparr>
     users := [\<lparr>id_u = ''admin'', credits = 0\<rparr>, \<lparr>id_u = ''u1'', credits = 30\<rparr>],
     withdraws := [\<lparr>id_w = ''w1'', userId_w = ''u1'', amount = 50, upi = ''a@upi'', utr = [],
        status = Pending, createdAt_w = ''t0'', processedAt = None\<rparr>]\<rparr>"

text \<open>A request that was approved at \<open>t1\<close>.\<close>

definition ex_decided :: db where
  "ex_decided = empty_db\<lparr>
     users := [\<lparr>id_u = ''admin'', credits = 0\<rparr>, \<lparr>id_u = ''u1'', credits = 100\<rparr>],
     withdraws := [\<lparr>id_w = ''w1'', userId_w = ''u1'', amount = 50, upi = ''a@upi'', utr = [],
        status = Approved, createdAt_w = ''t0'', processedAt = Some ''t1''\<rparr>]\<rparr>"

section \<open>Arrays\<close>

lemma mutate_first_no_match: "find P xs = None \<Longrightarrow> mutate_first P f xs = xs"
  by (induction xs) (auto split: if_splits)

lemma find_mutate_first:
  "find P xs = Some x \<Longrightarrow> P (f x) \<Longrightarrow> find P (mutate_first P f xs) = Some (f x)"
  by (induction xs) (auto split: if_splits)

lemma find_mutate_first_map:
  assumes "find P xs = Some x" and "P y" and "Q z"
  shows "find P (map (\<lambda>u. if Q u then y else u) (mutate_first P (\<lambda>u. z) xs)) = Some y"
  using assms by (induction xs) auto

lemma find_SomeD: "find P xs = Some x \<Longrightarrow> P x"
  by (auto simp: find_Some_iff)

lemma in_mutate_first_mapD:
  "v \<in> set (map (\<lambda>u. if Q u then y else u) (mutate_first P (\<lambda>u. z) xs))
    \<Longrightarrow> v = y \<or> v = z \<or> v \<in> set xs"
  by (induction xs) (auto split: if_splits)

lemma in_mutate_firstD:
  "v \<in> set (mutate_first P (\<lambda>u. z) xs) \<Longrightarrow> v = z \<or> v \<in> set xs"
  by (induction xs) (auto split: if_splits)

section \<open>Requesting a withdrawal\<close>

text \<open>
  C9.  When \<open>wallet_withdraw\<close> answers with a request, that request is new, has
  status \<open>Pending\<close> and the requested amount, it is appended to the withdrawals,
  and the list of accounts, hence every credit balance, is exactly as before:
  nothing is reserved or debited at request time.
\<close>

theorem wallet_withdraw_pending:
  assumes "wallet_withdraw uuid now reqUser amt upi' utr' d = Inr (d', w)"
  shows "status w = Pending \<and> amount w = amt \<and> id_w w = uuid \<and> processedAt w = None
    \<and> withdraws d' = withdraws d @ [w] \<and> users d' = users d
    \<and> map credits (users d') = map credits (users d)"
  using assms
  by (auto simp: wallet_withdraw_def Let_def split: if_splits option.splits)

theorem wallet_withdraw_pending_witness:
  "wallet_withdraw ''w1'' ''t1'' ''u1'' 300 (Some ''a@upi'') None ex_wallet =
     Inr (ex_wallet\<lparr>withdraws := [\<lparr>id_w = ''w1'', userId_w = ''u1'', amount = 300, upi = ''a@upi'',
            utr = [], status = Pending, createdAt_w = ''t1'', processedAt = None\<rparr>]\<rparr>,
          \<lparr>id_w = ''w1'', userId_w = ''u1'', amount = 300, upi = ''a@upi'',
            utr = [], status = Pending, createdAt_w = ''t1'', processedAt = None\<rparr>)
   \<and> map credits (users ex_wallet) = [0, 500]
   \<and> map credits (users (commit ex_wallet
         (wallet_withdraw ''w1'' ''t1'' ''u1'' 300 (Some ''a@upi'') None ex_wallet))) = [0, 500]"
proof -
  have run: "wallet_withdraw ''w1'' ''t1'' ''u1'' 300 (Some ''a@upi'') None ex_wallet =
     Inr (ex_wallet\<lparr>withdraws := [\<lparr>id_w = ''w1'', userId_w = ''u1'', amount = 300, upi = ''a@upi'',
            utr = [], status = Pending, createdAt_w = ''t1'', processedAt = None\<rparr>]\<rparr>,
          \<lparr>id_w = ''w1'', userId_w = ''u1'', amount = 300, upi = ''a@upi'',
            utr = [], status = Pending, createdAt_w = ''t1'', processedAt = None\<rparr>)"
    by (simp add: wallet_withdraw_def ex_wallet_def empty_db_def or_empty_def Let_def)
  from wallet_withdraw_pending [OF run] show ?thesis
    using run by (simp add: ex_wallet_def empty_db_def commit_def)
qed

section \<open>Deciding a withdrawal\<close>

text \<open>
  C10.  If the request exists and no account has the request's user id, approving
  still answers with the request: its status becomes \<open>Approved\<close>, its processing
  time stamp is set, the stored request is replaced by it, and the list of
  accounts is unchanged, so the amount is debited from nobody.
\<close>

theorem admin_withdraw_absent_user:
  assumes "find (\<lambda>x. id_w x = rid) (withdraws d) = Some w"
      and "find (\<lambda>u. id_u u = userId_w w) (users d) = None"
  shows "admin_withdraw now rid ''approve'' d =
           Inr (d\<lparr>withdraws := mutate_first (\<lambda>x. id_w x = rid)
                    (\<lambda>x. w\<lparr>status := Approved, processedAt := Some now\<rparr>) (withdraws d)\<rparr>,
                w\<lparr>status := Approved, processedAt := Some now\<rparr>)
      \<and> users (commit d (admin_withdraw now rid ''approve'' d)) = users d
      \<and> find (\<lambda>x. id_w x = rid) (withdraws (commit d (admin_withdraw now rid ''approve'' d)))
          = Some (w\<lparr>status := Approved, processedAt := Some now\<rparr>)"
proof -
  have idw: "id_w w = rid"
    using assms(1) by (auto dest: find_Some_iff[THEN iffD1])
  show ?thesis
    using assms idw by (simp add: admin_withdraw_def Let_def find_mutate_first commit_def)
qed

theorem admin_withdraw_absent_user_witness:
  "admin_withdraw ''t1'' ''w1'' ''approve'' ex_orphan =
     Inr (ex_orphan\<lparr>withdraws := [\<lparr>id_w = ''w1'', userId_w = ''gone'', amount = 50, upi = ''a@upi'',
            utr = [], status = Approved, createdAt_w = ''t0'', processedAt = Some ''t1''\<rparr>]\<rparr>,
          \<lparr>id_w = ''w1'', userId_w = ''gone'', amount = 50, upi = ''a@upi'',
            utr = [], status = Approved, createdAt_w = ''t0'', processedAt = Some ''t1''\<rparr>)
   \<and> users (commit ex_orphan (admin_withdraw ''t1'' ''w1'' ''approve'' ex_orphan))
       = [\<lparr>id_u = ''admin'', credits = 0\<rparr>]"
  using admin_withdraw_absent_user [of "''w1''" ex_orphan "hd (withdraws ex_orphan)" "''t1''"]
  by (simp add: ex_orphan_def empty_db_def commit_def)

text \<open>
  C2, as the specification states it, fails: a request that is already approved
  can be approved again, which debits the amount a second time and renews the
  time stamp, and it can be rejected afterwards.  Neither call is refused.
\<close>

theorem admin_withdraw_again:
  "status (hd (withdraws ex_decided)) = Approved
   \<and> admin_withdraw ''t2'' ''w1'' ''approve'' ex_decided =
     Inr (ex_decided\<lparr>
            withdraws := [\<lparr>id_w = ''w1'', userId_w = ''u1'', amount = 50, upi = ''a@upi'', utr = [],
               status = Approved, createdAt_w = ''t0'', processedAt = Some ''t2''\<rparr>],
            users := [\<lparr>id_u = ''admin'', credits = 0\<rparr>, \<lparr>id_u = ''u1'', credits = 50\<rparr>]\<rparr>,
          \<lparr>id_w = ''w1'', userId_w = ''u1'', amount = 50, upi = ''a@upi'', utr = [],
               status = Approved, createdAt_w = ''t0'', processedAt = Some ''t2''\<rparr>)
   \<and> admin_withdraw ''t2'' ''w1'' ''reject'' ex_decided =
     Inr (ex_decided\<lparr>
            withdraws := [\<lparr>id_w = ''w1'', userId_w = ''u1'', amount = 50, upi = ''a@upi'', utr = [],
               status = Rejected, createdAt_w = ''t0'', processedAt = Some ''t2''\<rparr>]\<rparr>,
          \<lparr>id_w = ''w1'', userId_w = ''u1'', amount = 50, upi = ''a@upi'', utr = [],
               status = Rejected, createdAt_w = ''t0'', processedAt = Some ''t2''\<rparr>)"
  by (simp add: admin_withdraw_def ex_decided_def empty_db_def Let_def)

text \<open>
  C2, amended.  The handler never reads the current status.  For every existing
  request, pending or not: rejecting answers with the request, its status set
  to \<open>Rejected\<close> and its processing time stamp set, and leaves the accounts as
  they are; approving, when the balance of the request's user covers the amount
  (or no account has that user id), answers with the request, its status set to
  \<open>Approved\<close> and its time stamp set, and debits the amount from that user.
  In both cases the stored request is replaced by the answered one.  Nothing is
  said here about approving when the balance is short of the amount.
\<close>

theorem admin_withdraw_any_status:
  assumes req: "find (\<lambda>x. id_w x = rid) (withdraws d) = Some w"
      and act: "action = ''approve'' \<or> action = ''reject''"
      and covered: "action = ''approve'' \<longrightarrow>
             (case find (\<lambda>u. id_u u = userId_w w) (users d) of
                None \<Rightarrow> True | Some u \<Rightarrow> amount w \<le> credits u)"
  shows "admin_withdraw now rid action d =
    Inr (d\<lparr>withdraws := mutate_first (\<lambda>x. id_w x = rid)
              (\<lambda>x. w\<lparr>status := (if action = ''approve'' then Approved else Rejected),
                      processedAt := Some now\<rparr>) (withdraws d),
           users := (if action = ''approve''
                     then mutate_first (\<lambda>u. id_u u = userId_w w)
                            (\<lambda>u. u\<lparr>credits := credits u - amount w\<rparr>) (users d)
                     else users d)\<rparr>,
         w\<lparr>status := (if action = ''approve'' then Approved else Rejected),
           processedAt := Some now\<rparr>)"
proof (cases "find (\<lambda>u. id_u u = userId_w w) (users d)")
  case None
  then show ?thesis
    using req act by (auto simp: admin_withdraw_def Let_def mutate_first_no_match)
next
  case (Some u)
  then show ?thesis
    using req act by (auto simp: admin_withdraw_def Let_def)
qed

theorem admin_withdraw_any_status_witness:
  "admin_withdraw ''t3'' ''w1'' ''approve''
      (ex_decided\<lparr>withdraws := [\<lparr>id_w = ''w1'', userId_w = ''u1'', amount = 50, upi = ''a@upi'',
          utr = [], status = Rejected, createdAt_w = ''t0'', processedAt = Some ''t1''\<rparr>]\<rparr>) =
     Inr (ex_decided\<lparr>
            withdraws := [\<lparr>id_w = ''w1'', userId_w = ''u1'', amount = 50, upi = ''a@upi'',
              utr = [], status = Approved, createdAt_w = ''t0'', processedAt = Some ''t3''\<rparr>],
            users := [\<lparr>id_u = ''admin'', credits = 0\<rparr>, \<lparr>id_u = ''u1'', credits = 50\<rparr>]\<rparr>,
          \<lparr>id_w = ''w1'', userId_w = ''u1'', amount = 50, upi = ''a@upi'',
            utr = [], status = Approved, createdAt_w = ''t0'', processedAt = Some ''t3''\<rparr>)
   \<and> (50 :: number) \<le> 100"
  using admin_withdraw_any_status [of "''w1''"
      "ex_decided\<lparr>withdraws := [\<lparr>id_w = ''w1'', userId_w = ''u1'', amount = 50, upi = ''a@upi'',
          utr = [], status = Rejected, createdAt_w = ''t0'', processedAt = Some ''t1''\<rparr>]\<rparr>"
      "\<lparr>id_w = ''w1'', userId_w = ''u1'', amount = 50, upi = ''a@upi'',
          utr = [], status = Rejected, createdAt_w = ''t0'', processedAt = Some ''t1''\<rparr>"
      "''approve''" "''t3''"]
  by (simp add: ex_decided_def empty_db_def)

text \<open>
  C3.  The specification's scenario on the code: a pending request of 50, a
  balance of 30.  Approving answers with the approved request and the balance
  becomes -20; no \<open>InsufficientFunds\<close> is reported.
\<close>

theorem admin_withdraw_short_balance:
  "admin_withdraw ''t1'' ''w1'' ''approve'' ex_short =
     Inr (ex_short\<lparr>
            withdraws := [\<lparr>id_w = ''w1'', userId_w = ''u1'', amount = 50, upi = ''a@upi'', utr = [],
               status = Approved, createdAt_w = ''t0'', processedAt = Some ''t1''\<rparr>],
            users := [\<lparr>id_u = ''admin'', credits = 0\<rparr>, \<lparr>id_u = ''u1'', credits = -20\<rparr>]\<rparr>,
          \<lparr>id_w = ''w1'', userId_w = ''u1'', amount = 50, upi = ''a@upi'', utr = [],
               status = Approved, createdAt_w = ''t0'', processedAt = Some ''t1''\<rparr>)
   \<and> admin_withdraw ''t1'' ''w1'' ''approve'' ex_short \<noteq> Inl InsufficientFunds"
  by (simp add: admin_withdraw_def ex_short_def empty_db_def Let_def)

section \<open>The balance guard\<close>

text \<open>Voting and both play handlers refuse a debit that the balance does not
  cover, and keep every balance non-negative.\<close>

lemma vote_short:
  assumes "find (\<lambda>p. id_p p = photoId \<and> challengeId p = cid) (photos d) = Some ph"
      and "find (\<lambda>u. id_u u = reqUser) (users d) = Some u"
      and "credits u < max 1 (Number_or amt 1) * costPerVote"
  shows "vote cid photoId reqUser amt d = Inl InsufficientFunds"
  using assms by (simp add: vote_def Let_def)

lemma play_passthrough_short:
  assumes "g \<noteq> []" and "find (\<lambda>u. id_u u = reqUser) (users d) = Some u" and "credits u < c"
  shows "play_passthrough playId playAt reqUser (Some g) (Some c) result d = Inl InsufficientFunds"
  using assms by (simp add: play_passthrough_def)

lemma play_secure_short:
  assumes "g \<noteq> []" and "gameConfigs d = Some cfgs" and "cfgs g = Some cfg" and "enabled cfg"
      and "find (\<lambda>u. id_u u = reqUser) (users d) = Some u"
      and "credits u < Number_or (cost cfg) 0"
  shows "play_secure feeId feeAt playId playAt rnd reqUser (Some g) d = Inl InsufficientFunds"
  using assms by (simp add: play_secure_def Let_def)

lemma vote_keeps_nonneg:
  assumes inv: "\<forall>u\<in>set (users d). 0 \<le> credits u"
      and ok: "vote cid photoId reqUser amt d = Inr (d', ph', bal)"
      and v: "v \<in> set (users d')"
  shows "0 \<le> credits v"
  using inv ok v
  by (auto simp: vote_def Let_def split: option.splits if_splits dest!: in_mutate_first_mapD in_mutate_firstD)

lemma play_passthrough_keeps_nonneg:
  assumes inv: "\<forall>u\<in>set (users d). 0 \<le> credits u"
      and ok: "play_passthrough playId playAt reqUser gameId cost' result d = Inr (d', bal, play)"
      and v: "v \<in> set (users d')"
  shows "0 \<le> credits v"
  using inv ok v
  by (auto simp: play_passthrough_def Let_def split: option.splits if_splits
      dest!: in_mutate_first_mapD in_mutate_firstD)

lemma play_secure_keeps_nonneg:
  assumes inv: "\<forall>u\<in>set (users d). 0 \<le> credits u"
      and ok: "play_secure feeId feeAt playId playAt rnd reqUser gameId d = Inr (d', bal, play)"
      and v: "v \<in> set (users d')"
  shows "0 \<le> credits v"
  using inv ok v
  by (auto simp: play_secure_def Let_def split: option.splits if_splits
      dest!: in_mutate_first_mapD in_mutate_firstD)

text \<open>
  C1.  The approval of a withdrawal has no such guard, and a negative balance is
  reached through the handlers alone: a player with 500 credits requests 300
  twice (each request passes the check against the undebited balance) and both
  requests are approved.
\<close>

theorem negative_balance_reachable:
  "(let d1 = commit ex_wallet (wallet_withdraw ''w1'' ''t1'' ''u1'' 300 (Some ''a@upi'') None ex_wallet);
        d2 = commit d1 (wallet_withdraw ''w2'' ''t2'' ''u1'' 300 (Some ''a@upi'') None d1);
        d3 = commit d2 (admin_withdraw ''t3'' ''w1'' ''approve'' d2);
        d4 = commit d3 (admin_withdraw ''t4'' ''w2'' ''approve'' d3)
    in map credits (users d2) = [0, 500] \<and> map status (withdraws d2) = [Pending, Pending]
     \<and> map credits (users d3) = [0, 200]
     \<and> map credits (users d4) = [0, -100] \<and> map status (withdraws d4) = [Approved, Approved])"
  by (simp add: commit_def wallet_withdraw_def admin_withdraw_def ex_wallet_def empty_db_def
      Let_def or_empty_def)

section \<open>The walk over the odds\<close>

lemma Number_or_index: "Number_or (index xs i) 0 = (if i < length xs then xs ! i else 0)"
  by (simp add: Number_or_def index_def)

lemma odds_walk_find:
  "cumulative = sum_list (take i os) \<Longrightarrow>
   odds_walk rnd os ms i cumulative =
     (case find (\<lambda>j. rnd \<le> sum_list (take (Suc j) os)) [i..<length os] of
        None \<Rightarrow> 0 | Some j \<Rightarrow> if j < length ms then ms ! j else 0)"
proof (induction rnd os ms i cumulative rule: odds_walk.induct)
  case (1 rnd os ms i cumulative)
  show ?case
  proof (cases "i < length os")
    case False
    then show ?thesis by (simp add: odds_walk.simps [of rnd os ms i cumulative])
  next
    case True
    have step: "sum_list (take (Suc i) os) = cumulative + os ! i"
      using True "1.prems" by (simp add: take_Suc_conv_app_nth)
    have upt: "[i..<length os] = i # [Suc i..<length os]"
      using True by (simp add: upt_conv_Cons)
    show ?thesis
    proof (cases "rnd \<le> cumulative + os ! i")
      case hit: True
      show ?thesis
        using True hit step
        by (simp add: odds_walk.simps [of rnd os ms i cumulative] upt Number_or_index Let_def
            del: upt.simps take_Suc)
    next
      case miss: False
      have "odds_walk rnd os ms (Suc i) (cumulative + os ! i) =
        (case find (\<lambda>j. rnd \<le> sum_list (take (Suc j) os)) [Suc i..<length os] of
           None \<Rightarrow> 0 | Some j \<Rightarrow> if j < length ms then ms ! j else 0)"
        using "1.IH" [OF True refl] miss True step by (simp add: Number_or_index)
      then show ?thesis
        using True miss step
        by (simp add: odds_walk.simps [of rnd os ms i cumulative] upt Number_or_index Let_def
            del: upt.simps take_Suc)
    qed
  qed
qed

lemma prefix_le_total:
  fixes os :: "number list"
  assumes "\<forall>x\<in>set os. 0 \<le> x"
  shows "sum_list (take n os) \<le> sum_list os"
proof -
  have "sum_list os = sum_list (take n os) + sum_list (drop n os)"
    by (metis append_take_drop_id sum_list_append)
  moreover have "0 \<le> sum_list (drop n os)"
    using assms by (auto intro!: sum_list_nonneg dest: in_set_dropD)
  ultimately show ?thesis by simp
qed

text \<open>
  C6.  Started as the handler starts it (index 0, running sum 0), the walk returns
  the multiplier paired with the first index at which the running sum of the
  odds reaches or exceeds the sample (0 when the multipliers have no entry
  there), and 0 when no index does.  For the sample 0.05, odds [0.1, 0.2, 0.7]
  and multipliers [5, 2, 0] that index is 0 and the multiplier is 5.  When the
  odds are probabilities (none negative) and the sample exceeds their whole
  sum, no index is chosen and the multiplier is 0: a total loss, not an error.
\<close>

theorem odds_walk_first_reaching:
  "odds_walk r os ms 0 0 =
     (case first_reaching r os of None \<Rightarrow> 0 | Some i \<Rightarrow> if i < length ms then ms ! i else 0)
   \<and> first_reaching (1/20) [1/10, 1/5, 7/10] = Some 0
   \<and> odds_walk (1/20) [1/10, 1/5, 7/10] [5, 2, 0] 0 0 = 5
   \<and> ((\<forall>x\<in>set os. 0 \<le> x) \<and> sum_list os < r \<longrightarrow>
        first_reaching r os = None \<and> odds_walk r os ms 0 0 = 0)"
proof -
  have walk: "odds_walk r os ms 0 0 =
     (case first_reaching r os of None \<Rightarrow> 0 | Some i \<Rightarrow> if i < length ms then ms ! i else 0)"
    for r os ms
    using odds_walk_find [of 0 0 os r ms] by (simp add: first_reaching_def)
  have ex: "first_reaching (1/20) [1/10, 1/5, 7/10] = Some 0"
    by (simp add: first_reaching_def upt_conv_Cons)
  have gap: "first_reaching r os = None" if "\<forall>x\<in>set os. 0 \<le> x" and "sum_list os < r"
  proof -
    have "\<not> r \<le> sum_list (take (Suc i) os)" for i
      using prefix_le_total [OF that(1), of "Suc i"] that(2) by simp
    then show ?thesis
      by (simp add: first_reaching_def find_None_iff del: take_Suc)
  qed
  show ?thesis
    using walk [of r os ms] walk [of "1/20" "[1/10, 1/5, 7/10]" "[5, 2, 0]"] ex gap
    by (simp del: take_Suc)
qed

theorem odds_walk_first_reaching_witness:
  "sum_list [1/10, 1/5] < (1/2 :: number)
   \<and> first_reaching (1/2) [1/10, 1/5] = None
   \<and> odds_walk (1/2) [1/10, 1/5] [5, 2] 0 0 = 0"
  using odds_walk_first_reaching [of "1/2" "[1/10, 1/5]" "[5, 2]"]
  by simp

section \<open>Playing a configured game\<close>

lemma floor_zero: "0 \<le> (x::rat) \<Longrightarrow> \<not> 1 \<le> x \<Longrightarrow> \<lfloor>x\<rfloor> = 0"
  by (simp add: floor_eq_iff)

text \<open>
  C4, as the specification states it, fails when the award is negative: with the
  multiplier \<open>-1\<close>, cost 100 and 10 percent fee the award is \<open>floor (90 * -1) = -90\<close>,
  the handler credits nothing (\<^verbatim>\<open>if(award > 0)\<close>) and a balance of 1000 becomes 900,
  not \<open>1000 - 100 + (-90)\<close>.
\<close>

theorem play_secure_negative_award:
  "play_secure ''f1'' ''t1'' ''p1'' ''t2'' (1/2) ''u1'' (Some ''g1'') ex_game_neg =
     Inr (ex_game_neg\<lparr>
            systemFees := Some [\<lparr>fee_id = ''f1'', fee_gameId = ''g1'', fee_amount = 10, collectedAt = ''t1''\<rparr>],
            gamePlays := Some [\<lparr>play_id = ''p1'', play_userId = ''u1'', play_gameId = ''g1'',
               play_cost = 100, play_fee = Some 10, play_effectiveStake = Some 90,
               play_multiplier = Some (-1), play_award = -90, play_createdAt = ''t2''\<rparr>],
            users := [\<lparr>id_u = ''admin'', credits = 0\<rparr>, \<lparr>id_u = ''u1'', credits = 900\<rparr>]\<rparr>,
          900,
          \<lparr>play_id = ''p1'', play_userId = ''u1'', play_gameId = ''g1'',
               play_cost = 100, play_fee = Some 10, play_effectiveStake = Some 90,
               play_multiplier = Some (-1), play_award = -90, play_createdAt = ''t2''\<rparr>)
   \<and> (900 :: number) \<noteq> 1000 - 100 + (-90)"
  by (simp add: play_secure_def ex_game_neg_def cfg_double_def empty_db_def Let_def
      Number_or_def or_empty_def odds_walk.simps index_def)

text \<open>
  C4, amended.  For every play that succeeds, for the configuration \<open>cfg\<close> of the
  game and the account \<open>u\<close> of the player: the game is enabled, the cost is
  \<^verbatim>\<open>Number(cfg.cost) || 0\<close> and was covered by the balance, the recorded fee is
  \<open>floor (cost * feePercent / 100)\<close>, the effective stake \<open>cost - fee\<close>, the award
  \<open>floor (effectiveStake * chosenMultiplier)\<close>, and the new balance, answered
  and stored, is the old one minus the cost plus the award when the award is
  positive, and minus the cost alone otherwise.  So the specification's equation
  holds whenever the award is not negative.
\<close>

theorem play_secure_balance:
  assumes ok: "play_secure feeId feeAt playId playAt rnd reqUser gameId d = Inr (d', balanceAfter, play)"
      and g: "gameId = Some g"
      and cfg: "gameConfigs d = Some cfgs" "cfgs g = Some cfg"
      and usr: "find (\<lambda>u. id_u u = reqUser) (users d) = Some u"
  shows "let cost' = Number_or (cost cfg) 0;
             fee = of_int \<lfloor>cost' * Number_or (feePercent cfg) 0 / 100\<rfloor>;
             effectiveStake = cost' - fee;
             chosenMultiplier = odds_walk rnd (or_empty (odds cfg)) (or_empty (payoutMultipliers cfg)) 0 0;
             award = of_int \<lfloor>effectiveStake * chosenMultiplier\<rfloor>
         in enabled cfg \<and> cost' \<le> credits u
          \<and> play_cost play = cost' \<and> play_fee play = Some fee
          \<and> play_effectiveStake play = Some effectiveStake
          \<and> play_multiplier play = Some chosenMultiplier \<and> play_award play = award
          \<and> balanceAfter = credits u - cost' + (if award > 0 then award else 0)
          \<and> (0 \<le> award \<longrightarrow> balanceAfter = credits u - cost' + award)
          \<and> find (\<lambda>u. id_u u = reqUser) (users d') = Some (u\<lparr>credits := balanceAfter\<rparr>)"
proof -
  have idu: "id_u u = reqUser" using find_SomeD [OF usr] .
  show ?thesis
    using ok g cfg usr idu
    by (auto simp: play_secure_def Let_def find_mutate_first_map floor_zero split: if_splits)
qed

lemma play_secure_ex_game:
  "play_secure ''f1'' ''t1'' ''p1'' ''t2'' (1/2) ''u1'' (Some ''g1'') ex_game =
     Inr (ex_game\<lparr>
            systemFees := Some [\<lparr>fee_id = ''f1'', fee_gameId = ''g1'', fee_amount = 10, collectedAt = ''t1''\<rparr>],
            gamePlays := Some [\<lparr>play_id = ''p1'', play_userId = ''u1'', play_gameId = ''g1'',
               play_cost = 100, play_fee = Some 10, play_effectiveStake = Some 90,
               play_multiplier = Some 2, play_award = 180, play_createdAt = ''t2''\<rparr>],
            users := [\<lparr>id_u = ''admin'', credits = 0\<rparr>, \<lparr>id_u = ''u1'', credits = 1080\<rparr>]\<rparr>,
          1080,
          \<lparr>play_id = ''p1'', play_userId = ''u1'', play_gameId = ''g1'',
               play_cost = 100, play_fee = Some 10, play_effectiveStake = Some 90,
               play_multiplier = Some 2, play_award = 180, play_createdAt = ''t2''\<rparr>)"
  by (simp add: play_secure_def ex_game_def cfg_double_def empty_db_def Let_def
      Number_or_def or_empty_def odds_walk.simps index_def)

theorem play_secure_balance_witness:
  "play_secure ''f1'' ''t1'' ''p1'' ''t2'' (1/2) ''u1'' (Some ''g1'') ex_game =
     Inr (ex_game\<lparr>
            systemFees := Some [\<lparr>fee_id = ''f1'', fee_gameId = ''g1'', fee_amount = 10, collectedAt = ''t1''\<rparr>],
            gamePlays := Some [\<lparr>play_id = ''p1'', play_userId = ''u1'', play_gameId = ''g1'',
               play_cost = 100, play_fee = Some 10, play_effectiveStake = Some 90,
               play_multiplier = Some 2, play_award = 180, play_createdAt = ''t2''\<rparr>],
            users := [\<lparr>id_u = ''admin'', credits = 0\<rparr>, \<lparr>id_u = ''u1'', credits = 1080\<rparr>]\<rparr>,
          1080,
          \<lparr>play_id = ''p1'', play_userId = ''u1'', play_gameId = ''g1'',
               play_cost = 100, play_fee = Some 10, play_effectiveStake = Some 90,
               play_multiplier = Some 2, play_award = 180, play_createdAt = ''t2''\<rparr>)
   \<and> (1080 :: number) = 1000 - 100 + rat_of_int \<lfloor>(100 - rat_of_int \<lfloor>100 * 10 / (100 :: number)\<rfloor>) * 2\<rfloor>"
proof -
  have cfgs: "gameConfigs ex_game = Some [''g1'' \<mapsto> cfg_double]"
    by (simp add: ex_game_def empty_db_def)
  have cfg: "[''g1'' \<mapsto> cfg_double] ''g1'' = Some cfg_double"
    by simp
  have usr: "find (\<lambda>u. id_u u = ''u1'') (users ex_game) = Some \<lparr>id_u = ''u1'', credits = 1000\<rparr>"
    by (simp add: ex_game_def empty_db_def)
  have mult: "odds_walk (1/2) [1] [2] 0 0 = 2"
    by (simp add: odds_walk.simps Number_or_def index_def)
  from play_secure_balance [OF play_secure_ex_game refl cfgs cfg usr] mult
  show ?thesis
    using play_secure_ex_game
    by (simp add: Let_def cfg_double_def Number_or_def or_empty_def)
qed

text \<open>
  C5.  On the same document and the same request body (game \<open>g1\<close>, cost 100, no
  result) the two handlers of \<^verbatim>\<open>POST /api/play\<close> both succeed and differ: the
  pass-through handler leaves 900 credits and records an award of 0 without fee,
  the odds-aware one leaves 1080 and records fee 10, stake 90, multiplier 2 and
  award 180; and whatever the random sample, their answers differ.
\<close>

theorem play_handlers_differ:
  "play_passthrough ''p1'' ''t2'' ''u1'' (Some ''g1'') (Some 100) None ex_game =
     Inr (ex_game\<lparr>
            gamePlays := Some [\<lparr>play_id = ''p1'', play_userId = ''u1'', play_gameId = ''g1'',
               play_cost = 100, play_fee = None, play_effectiveStake = None,
               play_multiplier = None, play_award = 0, play_createdAt = ''t2''\<rparr>],
            users := [\<lparr>id_u = ''admin'', credits = 0\<rparr>, \<lparr>id_u = ''u1'', credits = 900\<rparr>]\<rparr>,
          900,
          \<lparr>play_id = ''p1'', play_userId = ''u1'', play_gameId = ''g1'',
               play_cost = 100, play_fee = None, play_effectiveStake = None,
               play_multiplier = None, play_award = 0, play_createdAt = ''t2''\<rparr>)
   \<and> play_secure ''f1'' ''t1'' ''p1'' ''t2'' (1/2) ''u1'' (Some ''g1'') ex_game =
     Inr (ex_game\<lparr>
            systemFees := Some [\<lparr>fee_id = ''f1'', fee_gameId = ''g1'', fee_amount = 10, collectedAt = ''t1''\<rparr>],
            gamePlays := Some [\<lparr>play_id = ''p1'', play_userId = ''u1'', play_gameId = ''g1'',
               play_cost = 100, play_fee = Some 10, play_effectiveStake = Some 90,
               play_multiplier = Some 2, play_award = 180, play_createdAt = ''t2''\<rparr>],
            users := [\<lparr>id_u = ''admin'', credits = 0\<rparr>, \<lparr>id_u = ''u1'', credits = 1080\<rparr>]\<rparr>,
          1080,
          \<lparr>play_id = ''p1'', play_userId = ''u1'', play_gameId = ''g1'',
               play_cost = 100, play_fee = Some 10, play_effectiveStake = Some 90,
               play_multiplier = Some 2, play_award = 180, play_createdAt = ''t2''\<rparr>)
   \<and> play_passthrough ''p1'' ''t2'' ''u1'' (Some ''g1'') (Some 100) None ex_game
       \<noteq> play_secure ''f1'' ''t1'' ''p1'' ''t2'' (1/2) ''u1'' (Some ''g1'') ex_game
   \<and> (\<forall>rnd. play_passthrough ''p1'' ''t2'' ''u1'' (Some ''g1'') (Some 100) None ex_game
       \<noteq> play_secure ''f1'' ''t1'' ''p1'' ''t2'' rnd ''u1'' (Some ''g1'') ex_game)"
proof -
  have simple: "play_passthrough ''p1'' ''t2'' ''u1'' (Some ''g1'') (Some 100) None ex_game =
     Inr (ex_game\<lparr>
            gamePlays := Some [\<lparr>play_id = ''p1'', play_userId = ''u1'', play_gameId = ''g1'',
               play_cost = 100, play_fee = None, play_effectiveStake = None,
               play_multiplier = None, play_award = 0, play_createdAt = ''t2''\<rparr>],
            users := [\<lparr>id_u = ''admin'', credits = 0\<rparr>, \<lparr>id_u = ''u1'', credits = 900\<rparr>]\<rparr>,
          900,
          \<lparr>play_id = ''p1'', play_userId = ''u1'', play_gameId = ''g1'',
               play_cost = 100, play_fee = None, play_effectiveStake = None,
               play_multiplier = None, play_award = 0, play_createdAt = ''t2''\<rparr>)"
    by (simp add: play_passthrough_def ex_game_def cfg_double_def empty_db_def Let_def
        Number_or_def or_empty_def)
  have any: "play_passthrough ''p1'' ''t2'' ''u1'' (Some ''g1'') (Some 100) None ex_game
       \<noteq> play_secure ''f1'' ''t1'' ''p1'' ''t2'' rnd ''u1'' (Some ''g1'') ex_game" for rnd
    unfolding simple
    by (simp add: play_secure_def ex_game_def cfg_double_def empty_db_def Let_def
        Number_or_def or_empty_def)
  show ?thesis
    using simple play_secure_ex_game any by simp
qed

section \<open>Voting for a photo\<close>

lemma votes_cast_code: "max 1 (Number_or amt 1) = votes_cast amt"
  by (cases amt) (auto simp: Number_or_def votes_cast_def max_def)

text \<open>The two wordings agree unless a count strictly between 0 and 1 is supplied.\<close>

lemma votes_cast_vote_count:
  "(votes_cast amt = vote_count amt) =
     (case amt of None \<Rightarrow> True | Some n \<Rightarrow> n \<le> 0 \<or> 1 \<le> n)"
  by (cases amt) (auto simp: votes_cast_def vote_count_def)

text \<open>
  C7, as the specification states it, fails for a supplied count between 0 and 1.
  With the count 0.5 the claim's count is 0.5 and its total cost 5.  The handler
  takes \<^verbatim>\<open>Math.max(1, 0.5) = 1\<close> vote for 10 credits: a player with 25 credits is
  left with 15, not 20, and the tally rises by 1, not 0.5; a player with 5
  credits, who covers the claimed cost of 5, is refused.
\<close>

theorem vote_fractional_count:
  "vote_count (Some (1/2)) = 1/2
   \<and> vote ''challenge-1'' ''ph1'' ''u2'' (Some (1/2)) ex_photo =
       Inr (ex_photo\<lparr>photos := [\<lparr>id_p = ''ph1'', challengeId = ''challenge-1'', votes = 1\<rparr>],
              users := [\<lparr>id_u = ''admin'', credits = 0\<rparr>, \<lparr>id_u = ''u1'', credits = 5\<rparr>,
                        \<lparr>id_u = ''u2'', credits = 15\<rparr>]\<rparr>,
            \<lparr>id_p = ''ph1'', challengeId = ''challenge-1'', votes = 1\<rparr>, 15)
   \<and> (15 :: number) \<noteq> 25 - vote_count (Some (1/2)) * 10
   \<and> (1 :: number) \<noteq> 0 + vote_count (Some (1/2))
   \<and> \<not> (5 :: number) < vote_count (Some (1/2)) * 10
   \<and> vote ''challenge-1'' ''ph1'' ''u1'' (Some (1/2)) ex_photo = Inl InsufficientFunds"
  by (simp add: vote_def vote_count_def ex_photo_def empty_db_def Let_def Number_or_def
      costPerVote_def)

text \<open>
  C7, amended.  For a player with an account: the number of votes is \<open>votes_cast\<close>,
  the supplied count, and 1 when the count is missing or below 1; the total cost
  is that number times 10.  If no photo with the given id is in the challenge the
  answer is 404; otherwise, if the balance is below the total cost, the answer is
  \<open>InsufficientFunds\<close> and the document is unchanged; otherwise the answer carries
  the photo with its tally raised by the number of votes and the balance lowered
  by the total cost, and both are what the written document holds for that photo
  and that player.
\<close>

theorem vote_contract:
  assumes usr: "find (\<lambda>u. id_u u = reqUser) (users d) = Some u"
  shows "(find (\<lambda>p. id_p p = photoId \<and> challengeId p = cid) (photos d) = None \<longrightarrow>
            vote cid photoId reqUser amt d = Inl (HttpError 404 ''Photo not found''))
       \<and> (\<forall>ph. find (\<lambda>p. id_p p = photoId \<and> challengeId p = cid) (photos d) = Some ph \<longrightarrow>
            (credits u < votes_cast amt * 10 \<longrightarrow>
               vote cid photoId reqUser amt d = Inl InsufficientFunds
               \<and> commit d (vote cid photoId reqUser amt d) = d)
          \<and> (\<not> credits u < votes_cast amt * 10 \<longrightarrow>
               vote cid photoId reqUser amt d =
                 Inr (commit d (vote cid photoId reqUser amt d),
                      ph\<lparr>votes := votes ph + votes_cast amt\<rparr>,
                      credits u - votes_cast amt * 10)
               \<and> find (\<lambda>u. id_u u = reqUser) (users (commit d (vote cid photoId reqUser amt d)))
                   = Some (u\<lparr>credits := credits u - votes_cast amt * 10\<rparr>)
               \<and> find (\<lambda>p. id_p p = photoId \<and> challengeId p = cid)
                    (photos (commit d (vote cid photoId reqUser amt d)))
                   = Some (ph\<lparr>votes := votes ph + votes_cast amt\<rparr>)))"
proof -
  have idu: "id_u u = reqUser" using find_SomeD [OF usr] .
  have n: "max 1 (Number_or amt 1) = votes_cast amt" by (rule votes_cast_code)
  have nf: "vote cid photoId reqUser amt d = Inl (HttpError 404 ''Photo not found'')"
    if "find (\<lambda>p. id_p p = photoId \<and> challengeId p = cid) (photos d) = None"
    using that by (simp add: vote_def Let_def)
  have short: "vote cid photoId reqUser amt d = Inl InsufficientFunds"
    if "find (\<lambda>p. id_p p = photoId \<and> challengeId p = cid) (photos d) = Some ph"
      and "credits u < votes_cast amt * 10" for ph
    using that usr n by (simp add: vote_def Let_def costPerVote_def)
  have paid: "vote cid photoId reqUser amt d =
       Inr (commit d (vote cid photoId reqUser amt d),
            ph\<lparr>votes := votes ph + votes_cast amt\<rparr>, credits u - votes_cast amt * 10)
     \<and> find (\<lambda>u. id_u u = reqUser) (users (commit d (vote cid photoId reqUser amt d)))
         = Some (u\<lparr>credits := credits u - votes_cast amt * 10\<rparr>)
     \<and> find (\<lambda>p. id_p p = photoId \<and> challengeId p = cid)
          (photos (commit d (vote cid photoId reqUser amt d)))
         = Some (ph\<lparr>votes := votes ph + votes_cast amt\<rparr>)"
    if ph: "find (\<lambda>p. id_p p = photoId \<and> challengeId p = cid) (photos d) = Some ph"
      and enough: "\<not> credits u < votes_cast amt * 10" for ph
  proof -
    have idp: "id_p ph = photoId \<and> challengeId ph = cid" using find_SomeD [OF ph] .
    show ?thesis
      using ph enough usr n idu idp
      by (simp add: vote_def Let_def costPerVote_def commit_def Number_or_def
          find_mutate_first_map)
  qed
  show ?thesis
    using nf short paid by (simp add: commit_def)
qed

theorem vote_contract_witness:
  "vote ''challenge-1'' ''ph1'' ''u1'' (Some 1) ex_photo = Inl InsufficientFunds
   \<and> commit ex_photo (vote ''challenge-1'' ''ph1'' ''u1'' (Some 1) ex_photo) = ex_photo
   \<and> map credits (users ex_photo) = [0, 5, 25] \<and> map votes (photos ex_photo) = [0]
   \<and> vote ''challenge-1'' ''ph1'' ''u2'' (Some (5/2)) ex_photo =
       Inr (ex_photo\<lparr>photos := [\<lparr>id_p = ''ph1'', challengeId = ''challenge-1'', votes = 5/2\<rparr>],
              users := [\<lparr>id_u = ''admin'', credits = 0\<rparr>, \<lparr>id_u = ''u1'', credits = 5\<rparr>,
                        \<lparr>id_u = ''u2'', credits = 0\<rparr>]\<rparr>,
            \<lparr>id_p = ''ph1'', challengeId = ''challenge-1'', votes = 5/2\<rparr>, 0)
   \<and> vote ''challenge-1'' ''ph1'' ''u2'' (Some 0) ex_photo =
       Inr (ex_photo\<lparr>photos := [\<lparr>id_p = ''ph1'', challengeId = ''challenge-1'', votes = 1\<rparr>],
              users := [\<lparr>id_u = ''admin'', credits = 0\<rparr>, \<lparr>id_u = ''u1'', credits = 5\<rparr>,
                        \<lparr>id_u = ''u2'', credits = 15\<rparr>]\<rparr>,
            \<lparr>id_p = ''ph1'', challengeId = ''challenge-1'', votes = 1\<rparr>, 15)
   \<and> vote ''challenge-1'' ''nope'' ''u2'' None ex_photo = Inl (HttpError 404 ''Photo not found'')"
proof -
  have u1: "find (\<lambda>u. id_u u = ''u1'') (users ex_photo) = Some \<lparr>id_u = ''u1'', credits = 5\<rparr>"
    and u2: "find (\<lambda>u. id_u u = ''u2'') (users ex_photo) = Some \<lparr>id_u = ''u2'', credits = 25\<rparr>"
    by (simp_all add: ex_photo_def empty_db_def)
  have ph: "find (\<lambda>p. id_p p = ''ph1'' \<and> challengeId p = ''challenge-1'') (photos ex_photo)
      = Some \<lparr>id_p = ''ph1'', challengeId = ''challenge-1'', votes = 0\<rparr>"
    and nope: "find (\<lambda>p. id_p p = ''nope'' \<and> challengeId p = ''challenge-1'') (photos ex_photo) = None"
    by (simp_all add: ex_photo_def empty_db_def)
  have paid: "commit ex_photo (vote ''challenge-1'' ''ph1'' ''u2'' (Some (5/2)) ex_photo) =
      ex_photo\<lparr>photos := [\<lparr>id_p = ''ph1'', challengeId = ''challenge-1'', votes = 5/2\<rparr>],
              users := [\<lparr>id_u = ''admin'', credits = 0\<rparr>, \<lparr>id_u = ''u1'', credits = 5\<rparr>,
                        \<lparr>id_u = ''u2'', credits = 0\<rparr>]\<rparr>"
    and zero: "commit ex_photo (vote ''challenge-1'' ''ph1'' ''u2'' (Some 0) ex_photo) =
      ex_photo\<lparr>photos := [\<lparr>id_p = ''ph1'', challengeId = ''challenge-1'', votes = 1\<rparr>],
              users := [\<lparr>id_u = ''admin'', credits = 0\<rparr>, \<lparr>id_u = ''u1'', credits = 5\<rparr>,
                        \<lparr>id_u = ''u2'', credits = 15\<rparr>]\<rparr>"
    by (simp_all add: vote_def commit_def ex_photo_def empty_db_def Let_def Number_or_def
        costPerVote_def)
  from vote_contract [OF u1, of "''ph1''" "''challenge-1''" "Some 1"]
       vote_contract [OF u2, of "''ph1''" "''challenge-1''" "Some (5/2)"]
       vote_contract [OF u2, of "''ph1''" "''challenge-1''" "Some 0"]
       vote_contract [OF u2, of "''nope''" "''challenge-1''" None]
  show ?thesis
    using ph nope paid zero by (simp add: votes_cast_def commit_def ex_photo_def empty_db_def)
qed

section \<open>Updating a game configuration\<close>

text \<open>
  C8, as the specification states it, fails: a payload that replaces only the
  odds by two entries, for a game with one multiplier, is accepted and stored.
\<close>

theorem admin_games_put_mismatch:
  "admin_games_put ''g1'' (patch_none\<lparr>patch_odds := Some [1/2, 1/2]\<rparr>) ex_game =
     Inr (ex_game\<lparr>gameConfigs := Some [''g1'' \<mapsto> cfg_double\<lparr>odds := Some [1/2, 1/2]\<rparr>]\<rparr>,
          cfg_double\<lparr>odds := Some [1/2, 1/2]\<rparr>)
   \<and> payoutMultipliers (cfg_double\<lparr>odds := Some [1/2, 1/2]\<rparr>) = Some [2]
   \<and> length [1/2, 1/2 :: number] \<noteq> length [2 :: number]"
  by (simp add: admin_games_put_def ex_game_def empty_db_def patch_none_def Let_def cfg_double_def)

text \<open>
  C8, amended.  The update compares nothing: for every existing game every
  payload is accepted; each supplied field replaces the stored one, the others
  keep their value, and the result is stored under the game's id, whatever the
  lengths of its odds and multipliers.
\<close>

theorem admin_games_put_accepts:
  assumes "gameConfigs d = Some cfgs" and "cfgs gameId = Some cur"
  shows "admin_games_put gameId payload d =
    Inr (d\<lparr>gameConfigs := Some (cfgs(gameId \<mapsto>
            \<lparr>cost = (case patch_cost payload of None \<Rightarrow> cost cur | Some c \<Rightarrow> Some c),
             feePercent = (case patch_feePercent payload of None \<Rightarrow> feePercent cur | Some f \<Rightarrow> Some f),
             payoutMultipliers = (case patch_payoutMultipliers payload of
                None \<Rightarrow> payoutMultipliers cur | Some ms \<Rightarrow> Some ms),
             odds = (case patch_odds payload of None \<Rightarrow> odds cur | Some os \<Rightarrow> Some os),
             enabled = (case patch_enabled payload of None \<Rightarrow> enabled cur | Some b \<Rightarrow> b)\<rparr>))\<rparr>,
         \<lparr>cost = (case patch_cost payload of None \<Rightarrow> cost cur | Some c \<Rightarrow> Some c),
          feePercent = (case patch_feePercent payload of None \<Rightarrow> feePercent cur | Some f \<Rightarrow> Some f),
          payoutMultipliers = (case patch_payoutMultipliers payload of
             None \<Rightarrow> payoutMultipliers cur | Some ms \<Rightarrow> Some ms),
          odds = (case patch_odds payload of None \<Rightarrow> odds cur | Some os \<Rightarrow> Some os),
          enabled = (case patch_enabled payload of None \<Rightarrow> enabled cur | Some b \<Rightarrow> b)\<rparr>)"
  using assms
  by (cases cur) (simp add: admin_games_put_def Let_def split: option.splits)

theorem admin_games_put_accepts_witness:
  "admin_games_put ''g1'' (patch_none\<lparr>patch_payoutMultipliers := Some [5, 2, 0]\<rparr>) ex_game =
     Inr (ex_game\<lparr>gameConfigs := Some [''g1'' \<mapsto> cfg_double\<lparr>payoutMultipliers := Some [5, 2, 0]\<rparr>]\<rparr>,
          cfg_double\<lparr>payoutMultipliers := Some [5, 2, 0]\<rparr>)
   \<and> odds (cfg_double\<lparr>payoutMultipliers := Some [5, 2, 0]\<rparr>) = Some [1]"
  using admin_games_put_accepts [of ex_game "[''g1'' \<mapsto> cfg_double]" "''g1''" cfg_double
      "patch_none\<lparr>patch_payoutMultipliers := Some [5, 2, 0]\<rparr>"]
  by (simp add: ex_game_def empty_db_def patch_none_def cfg_double_def)

end
